theory Spec2Isabelle
  imports Main "HOL-Library.Word"
begin

section \<open>JavaScript values used by the recovery page\<close>

text \<open>
  A JavaScript string is a sequence of UTF-16 code units and \<open>.length\<close> counts code
  units, so a string is a list of 16-bit words and \<open>length\<close> is \<open>.length\<close>.
  String literals of the source (endpoint paths, translation keys, header names) are
  ASCII and are written as HOL strings; \<open>lit\<close> turns one into a JavaScript string.
\<close>

type_synonym jsstring = "16 word list"

definition lit :: "string \<Rightarrow> jsstring" where
  "lit s = map (\<lambda>c. of_nat (of_char c)) s"

text \<open>Truthiness of a string: only the empty string is falsy.\<close>

definition truthy :: "jsstring \<Rightarrow> bool" where
  "truthy s = (s \<noteq> [])"

text \<open>
  \<open>v || d\<close> where \<open>v\<close> is a string, \<open>undefined\<close> or \<open>null\<close> (\<open>None\<close>).
\<close>

definition js_or :: "jsstring option \<Rightarrow> jsstring \<Rightarrow> jsstring" where
  "js_or v d = (case v of None \<Rightarrow> d | Some m \<Rightarrow> if truthy m then m else d)"

text \<open>
  \<open>Number(s)\<close> is only ever passed on to the backend inside a request body, so the
  number is kept as the application of \<open>Number\<close> to its argument.
\<close>

datatype jsnumber = Number jsstring

text \<open>
  \<open>type RecoveryMethod = 'telegram' | 'email' | null\<close>: the two channels, \<open>null\<close> is
  \<open>None\<close>.
\<close>

datatype channel = Telegram | Email

type_synonym RecoveryMethod = "channel option"

record RecoveryOptions =
  telegram :: bool
  email :: bool
  emailMasked :: "jsstring option"

subsection \<open>Outcome of an awaited call\<close>

text \<open>
  The object a rejected call is caught with. The handlers read
  \<open>error.response?.data?.error\<close>: each of \<open>response\<close>, \<open>data\<close> and \<open>error\<close> may be
  missing.
\<close>

record response_data =
  error_field :: "jsstring option"

record http_response =
  data :: "response_data option"

record rejection =
  response :: "http_response option"

definition server_error :: "rejection \<Rightarrow> jsstring option" where
  "server_error e =
     (case response e of
        None \<Rightarrow> None
      | Some r \<Rightarrow> (case data r of None \<Rightarrow> None | Some d \<Rightarrow> error_field d))"

datatype 'a outcome = Resolved 'a | Rejected rejection

subsection \<open>Requests, timers\<close>

datatype body =
    OptionsBody jsnumber
  | ForgotBody jsnumber RecoveryMethod
  | ResetBody jsnumber jsstring jsstring
  | ResetOldBody jsnumber jsstring jsstring

datatype request = Post string body

datatype callback = Navigate string

section \<open>The page: component state and its environment\<close>

text \<open>
  The thirteen \<open>useState\<close> cells of \<open>ForgotPassword\<close>, followed by what the handlers
  act on outside the component: the requests handed to \<open>apiClient.post\<close> (in order),
  the pending timers (due time in ms, callback), the clock in ms, and the routes
  \<open>navigate\<close> was called with (in order).
\<close>

record page =
  telegramId :: jsstring
  code :: jsstring
  newPassword :: jsstring
  confirmPassword :: jsstring
  oldPassword :: jsstring
  error :: jsstring
  success :: jsstring
  loading :: bool
  codeSent :: bool
  useOldPassword :: bool
  recoveryOptions :: "RecoveryOptions option"
  selectedMethod :: RecoveryMethod
  optionsLoading :: bool
  posted :: "request list"
  timers :: "(nat \<times> callback) list"
  clock :: nat
  visited :: "string list"

text \<open>The state on mount: the initial values given to \<open>useState\<close>.\<close>

definition initial :: page where
  "initial =
     \<lparr>telegramId = [], code = [], newPassword = [], confirmPassword = [],
      oldPassword = [], error = [], success = [], loading = False, codeSent = False,
      useOldPassword = False, recoveryOptions = None, selectedMethod = None,
      optionsLoading = False, posted = [], timers = [], clock = 0, visited = []\<rparr>"

subsection \<open>Setters and effects\<close>

definition setTelegramId :: "jsstring \<Rightarrow> page \<Rightarrow> page" where
  "setTelegramId v w = w\<lparr>telegramId := v\<rparr>"

definition setCode :: "jsstring \<Rightarrow> page \<Rightarrow> page" where
  "setCode v w = w\<lparr>code := v\<rparr>"

definition setNewPassword :: "jsstring \<Rightarrow> page \<Rightarrow> page" where
  "setNewPassword v w = w\<lparr>newPassword := v\<rparr>"

definition setConfirmPassword :: "jsstring \<Rightarrow> page \<Rightarrow> page" where
  "setConfirmPassword v w = w\<lparr>confirmPassword := v\<rparr>"

definition setOldPassword :: "jsstring \<Rightarrow> page \<Rightarrow> page" where
  "setOldPassword v w = w\<lparr>oldPassword := v\<rparr>"

definition setError :: "jsstring \<Rightarrow> page \<Rightarrow> page" where
  "setError v w = w\<lparr>error := v\<rparr>"

definition setSuccess :: "jsstring \<Rightarrow> page \<Rightarrow> page" where
  "setSuccess v w = w\<lparr>success := v\<rparr>"

definition setLoading :: "bool \<Rightarrow> page \<Rightarrow> page" where
  "setLoading v w = w\<lparr>loading := v\<rparr>"

definition setCodeSent :: "bool \<Rightarrow> page \<Rightarrow> page" where
  "setCodeSent v w = w\<lparr>codeSent := v\<rparr>"

definition setUseOldPassword :: "bool \<Rightarrow> page \<Rightarrow> page" where
  "setUseOldPassword v w = w\<lparr>useOldPassword := v\<rparr>"

definition setRecoveryOptions :: "RecoveryOptions option \<Rightarrow> page \<Rightarrow> page" where
  "setRecoveryOptions v w = w\<lparr>recoveryOptions := v\<rparr>"

definition setSelectedMethod :: "RecoveryMethod \<Rightarrow> page \<Rightarrow> page" where
  "setSelectedMethod v w = w\<lparr>selectedMethod := v\<rparr>"

definition setOptionsLoading :: "bool \<Rightarrow> page \<Rightarrow> page" where
  "setOptionsLoading v w = w\<lparr>optionsLoading := v\<rparr>"

text \<open>\<open>apiClient.post(url, body)\<close>: the request is issued.\<close>

definition apiClient_post :: "string \<Rightarrow> body \<Rightarrow> page \<Rightarrow> page" where
  "apiClient_post u b w = w\<lparr>posted := posted w @ [Post u b]\<rparr>"

text \<open>\<open>setTimeout(cb, d)\<close>: the callback becomes due \<open>d\<close> ms from now.\<close>

definition setTimeout :: "callback \<Rightarrow> nat \<Rightarrow> page \<Rightarrow> page" where
  "setTimeout cb d w = w\<lparr>timers := timers w @ [(clock w + d, cb)]\<rparr>"

text \<open>\<open>navigate(route)\<close>.\<close>

definition navigate :: "string \<Rightarrow> page \<Rightarrow> page" where
  "navigate r w = w\<lparr>visited := visited w @ [r]\<rparr>"

text \<open>A block of statements, run in the order written.\<close>

definition exec :: "(page \<Rightarrow> page) list \<Rightarrow> page \<Rightarrow> page" where
  "exec stmts w = foldl (\<lambda>v f. f v) w stmts"

section \<open>The handlers\<close>

text \<open>
  A handler is an \<open>async\<close> function with one \<open>await\<close>. It is modelled in two parts:
  \<open>_start\<close> is what runs when the event is dispatched, up to and including the call
  that is awaited; \<open>_settle\<close> is what runs when the awaited call resolves or rejects
  (the rest of \<open>try\<close>, or \<open>catch\<close>, then \<open>finally\<close>). Other events may be handled in
  between. The values a handler reads from component state are those of the render it
  was created in (\<open>s\<close>); its setters act on the current state. The handler named
  without suffix is the run in which nothing happens in between.
  \<open>t\<close> is the translation function of \<open>useLanguage\<close>.
\<close>

definition handleCheckOptions_start :: "page \<Rightarrow> page" where
  "handleCheckOptions_start s =
     exec
       [setError [],
        setOptionsLoading True,
        apiClient_post ''/auth/recovery-options'' (OptionsBody (Number (telegramId s)))]
       s"

definition handleCheckOptions_settle ::
  "(string \<Rightarrow> jsstring) \<Rightarrow> RecoveryOptions outcome \<Rightarrow> page \<Rightarrow> page" where
  "handleCheckOptions_settle t out w =
     exec
       ((case out of
           Resolved d \<Rightarrow>
             [setRecoveryOptions (Some d)] @
             (if telegram d \<and> \<not> email d then [setSelectedMethod (Some Telegram)]
              else if \<not> telegram d \<and> email d then [setSelectedMethod (Some Email)]
              else [])
         | Rejected e \<Rightarrow>
             [setError (js_or (server_error e) (t ''forgotPassword.errors.resetFailed''))])
        @ [setOptionsLoading False])
       w"

definition handleCheckOptions ::
  "(string \<Rightarrow> jsstring) \<Rightarrow> RecoveryOptions outcome \<Rightarrow> page \<Rightarrow> page" where
  "handleCheckOptions t out s = handleCheckOptions_settle t out (handleCheckOptions_start s)"

definition handleRequestCode_start :: "page \<Rightarrow> page" where
  "handleRequestCode_start s =
     exec
       [setError [],
        setSuccess [],
        setLoading True,
        apiClient_post ''/auth/forgot-password''
          (ForgotBody (Number (telegramId s)) (selectedMethod s))]
       s"

definition handleRequestCode_settle ::
  "(string \<Rightarrow> jsstring) \<Rightarrow> page \<Rightarrow> 'a outcome \<Rightarrow> page \<Rightarrow> page" where
  "handleRequestCode_settle t s out w =
     exec
       ((case out of
           Resolved _ \<Rightarrow>
             [setCodeSent True,
              setSuccess
                (if selectedMethod s = Some Email then t ''forgotPassword.codeSentEmail''
                 else t ''forgotPassword.codeSent'')]
         | Rejected e \<Rightarrow>
             [setError (js_or (server_error e) (t ''forgotPassword.errors.resetFailed''))])
        @ [setLoading False])
       w"

definition handleRequestCode ::
  "(string \<Rightarrow> jsstring) \<Rightarrow> 'a outcome \<Rightarrow> page \<Rightarrow> page" where
  "handleRequestCode t out s = handleRequestCode_settle t s out (handleRequestCode_start s)"

text \<open>
  \<open>handleResetPassword\<close> may return before its \<open>await\<close>: the flag says whether a call
  is awaited (\<open>True\<close>) or the handler has returned (\<open>False\<close>).
\<close>

definition handleResetPassword_start ::
  "(string \<Rightarrow> jsstring) \<Rightarrow> page \<Rightarrow> page \<times> bool" where
  "handleResetPassword_start t s =
     (let w = exec [setError [], setSuccess []] s in
      if newPassword s \<noteq> confirmPassword s then
        (setError (t ''forgotPassword.errors.mismatch'') w, False)
      else if length (newPassword s) < 6 then
        (setError (t ''forgotPassword.errors.tooShort'') w, False)
      else
        (exec
           [setLoading True,
            if useOldPassword s then
              apiClient_post ''/auth/reset-password-with-old''
                (ResetOldBody (Number (telegramId s)) (oldPassword s) (newPassword s))
            else
              apiClient_post ''/auth/reset-password''
                (ResetBody (Number (telegramId s)) (code s) (newPassword s))]
           w,
         True))"

definition handleResetPassword_settle ::
  "(string \<Rightarrow> jsstring) \<Rightarrow> 'a outcome \<Rightarrow> page \<Rightarrow> page" where
  "handleResetPassword_settle t out w =
     exec
       ((case out of
           Resolved _ \<Rightarrow>
             [setSuccess (t ''forgotPassword.passwordReset''),
              setTimeout (Navigate ''/login'') 2000]
         | Rejected e \<Rightarrow>
             [setError (js_or (server_error e) (t ''forgotPassword.errors.resetFailed''))])
        @ [setLoading False])
       w"

definition handleResetPassword ::
  "(string \<Rightarrow> jsstring) \<Rightarrow> 'a outcome \<Rightarrow> page \<Rightarrow> page" where
  "handleResetPassword t out s =
     (case handleResetPassword_start t s of
        (w, True) \<Rightarrow> handleResetPassword_settle t out w
      | (w, False) \<Rightarrow> w)"

definition resetState :: "page \<Rightarrow> page" where
  "resetState w =
     exec
       [setRecoveryOptions None,
        setSelectedMethod None,
        setCodeSent False,
        setCode [],
        setError [],
        setSuccess []]
       w"

text \<open>The inline click handlers of the buttons.\<close>

definition clickUseOldPassword :: "page \<Rightarrow> page" where
  "clickUseOldPassword w = setUseOldPassword True w"

definition clickMethod :: "channel \<Rightarrow> page \<Rightarrow> page" where
  "clickMethod m w = setSelectedMethod (Some m) w"

definition clickChangeMethod :: "page \<Rightarrow> page" where
  "clickChangeMethod w = setSelectedMethod None w"

definition clickBack :: "page \<Rightarrow> page" where
  "clickBack s =
     exec
       ((if useOldPassword s then [setUseOldPassword False, setOldPassword []]
         else [setCodeSent False, setCode []])
        @ [setError [], setSuccess []])
       s"

section \<open>The view\<close>

text \<open>
  What the component returns, reduced to the step shown and the parts of it that
  depend on state: the buttons of the channel selection, the channel of the send-code
  step, the ids of the inputs of the final form.
\<close>

datatype method_button = TelegramButton | EmailButton jsstring

datatype view =
    IdentifyForm
  | ChooseMethod "method_button list"
  | SendCode RecoveryMethod
  | ResetForm "string list"

definition method_buttons :: "RecoveryOptions \<Rightarrow> method_button list" where
  "method_buttons opts =
     [TelegramButton] @
     (if email opts then [EmailButton (js_or (emailMasked opts) [])] else [])"

definition reset_inputs :: "page \<Rightarrow> string list" where
  "reset_inputs w =
     (if \<not> useOldPassword w then [''code''] else []) @
     (if useOldPassword w then [''telegramId'', ''oldPassword''] else []) @
     [''newPassword'', ''confirmPassword'']"

text \<open>
  The chain of conditional expressions of the returned JSX. In the second branch
  \<open>recoveryOptions\<close> is not \<open>null\<close>, by the branch condition.
\<close>

definition render :: "page \<Rightarrow> view" where
  "render w =
     (if recoveryOptions w = None \<and> \<not> useOldPassword w then IdentifyForm
      else if recoveryOptions w \<noteq> None \<and> selectedMethod w = None then
        (case recoveryOptions w of
           Some opts \<Rightarrow> ChooseMethod (method_buttons opts)
         | None \<Rightarrow> ChooseMethod [])
      else if recoveryOptions w \<noteq> None \<and> selectedMethod w \<noteq> None \<and> \<not> codeSent w then
        SendCode (selectedMethod w)
      else ResetForm (reset_inputs w))"

section \<open>The environment: time\<close>

text \<open>
  The browser runs a timer's callback once, not before its delay has passed.
  \<open>advance T\<close> lets the clock reach \<open>T\<close>: the timers due by then run, earliest first
  (in the order set, among equals), and are removed.
\<close>

definition run_callback :: "callback \<Rightarrow> page \<Rightarrow> page" where
  "run_callback cb w = (case cb of Navigate r \<Rightarrow> navigate r w)"

definition advance :: "nat \<Rightarrow> page \<Rightarrow> page" where
  "advance T w =
     foldl (\<lambda>v e. run_callback (snd e) v)
       (w\<lparr>clock := max (clock w) T, timers := filter (\<lambda>e. \<not> fst e \<le> T) (timers w)\<rparr>)
       (sort_key fst (filter (\<lambda>e. fst e \<le> T) (timers w)))"

section \<open>The HTTP client's request interceptor\<close>

text \<open>
  \<open>localStorage\<close> maps keys to strings; \<open>getItem\<close> gives \<open>null\<close> (\<open>None\<close>) for a
  missing key. A request configuration carries its headers, next to fields the
  interceptor does not touch.
\<close>

type_synonym storage = "jsstring \<rightharpoonup> jsstring"

record config =
  headers :: "string \<rightharpoonup> jsstring"

definition getItem :: "storage \<Rightarrow> string \<Rightarrow> jsstring option" where
  "getItem st k = st (lit k)"

definition request_interceptor :: "storage \<Rightarrow> 'a config_scheme \<Rightarrow> 'a config_scheme" where
  "request_interceptor localStorage cfg =
     (let token = getItem localStorage ''accessToken'' in
      case token of
        None \<Rightarrow> cfg
      | Some tok \<Rightarrow>
          if truthy tok then
            cfg\<lparr>headers := (headers cfg)(''Authorization'' \<mapsto> lit ''Bearer '' @ tok)\<rparr>
          else cfg)"

section \<open>Notions used by the properties\<close>

text \<open>The route a timer callback navigates to.\<close>

definition route :: "callback \<Rightarrow> string" where
  "route cb = (case cb of Navigate r \<Rightarrow> r)"

text \<open>
  \<open>only_status_changed s w\<close>: \<open>w\<close> differs from \<open>s\<close> at most in the error message,
  the success message, the two busy flags and the list of issued requests. Every other
  cell of the component, the timers, the clock and the routes visited are the same.
\<close>

definition only_status_changed :: "page \<Rightarrow> page \<Rightarrow> bool" where
  "only_status_changed s w =
     (w\<lparr>error := error s, success := success s, loading := loading s,
        optionsLoading := optionsLoading s, posted := posted s\<rparr> = s)"

text \<open>
  A run in which the user asks for the old-password path while the options lookup is
  still in flight: the identifier \<open>12345\<close> is typed and submitted, the old-password
  button of the identify form is clicked, then the lookup resolves with both channels
  available.
\<close>

definition both_channels :: RecoveryOptions where
  "both_channels = \<lparr>telegram = True, email = True, emailMasked = Some (lit ''a***@b.com'')\<rparr>"

definition lookup_in_flight :: page where
  "lookup_in_flight = handleCheckOptions_start (setTelegramId (lit ''12345'') initial)"

definition old_path_then_options :: page where
  "old_path_then_options =
     handleCheckOptions_settle lit (Resolved both_channels)
       (clickUseOldPassword lookup_in_flight)"

section \<open>What each handler does, as one state update\<close>

lemmas setters =
  setTelegramId_def setCode_def setNewPassword_def setConfirmPassword_def
  setOldPassword_def setError_def setSuccess_def setLoading_def setCodeSent_def
  setUseOldPassword_def setRecoveryOptions_def setSelectedMethod_def
  setOptionsLoading_def apiClient_post_def setTimeout_def navigate_def exec_def

lemma start_mismatch:
  "newPassword s \<noteq> confirmPassword s \<Longrightarrow>
   handleResetPassword_start t s =
     (s\<lparr>error := t ''forgotPassword.errors.mismatch'', success := []\<rparr>, False)"
  by (simp add: handleResetPassword_start_def setters)

lemma start_short:
  "newPassword s = confirmPassword s \<Longrightarrow> length (newPassword s) < 6 \<Longrightarrow>
   handleResetPassword_start t s =
     (s\<lparr>error := t ''forgotPassword.errors.tooShort'', success := []\<rparr>, False)"
  by (simp add: handleResetPassword_start_def setters)

lemma start_valid:
  "newPassword s = confirmPassword s \<Longrightarrow> 6 \<le> length (newPassword s) \<Longrightarrow>
   handleResetPassword_start t s =
     (s\<lparr>error := [], success := [], loading := True,
        posted := posted s @
          [if useOldPassword s then
             Post ''/auth/reset-password-with-old''
               (ResetOldBody (Number (telegramId s)) (oldPassword s) (newPassword s))
           else
             Post ''/auth/reset-password''
               (ResetBody (Number (telegramId s)) (code s) (newPassword s))]\<rparr>, True)"
  by (simp add: handleResetPassword_start_def setters)

lemma check_start:
  "handleCheckOptions_start s =
     s\<lparr>error := [], optionsLoading := True,
       posted := posted s @
         [Post ''/auth/recovery-options'' (OptionsBody (Number (telegramId s)))]\<rparr>"
  by (simp add: handleCheckOptions_start_def setters)

lemma check_settle_resolved:
  "handleCheckOptions_settle t (Resolved d) w =
     w\<lparr>recoveryOptions := Some d,
       selectedMethod :=
         (if telegram d \<and> \<not> email d then Some Telegram
          else if \<not> telegram d \<and> email d then Some Email
          else selectedMethod w),
       optionsLoading := False\<rparr>"
  by (simp add: handleCheckOptions_settle_def setters)

lemma check_settle_rejected:
  "handleCheckOptions_settle t (Rejected e) w =
     w\<lparr>error := js_or (server_error e) (t ''forgotPassword.errors.resetFailed''),
       optionsLoading := False\<rparr>"
  by (simp add: handleCheckOptions_settle_def setters)

lemma request_start:
  "handleRequestCode_start s =
     s\<lparr>error := [], success := [], loading := True,
       posted := posted s @
         [Post ''/auth/forgot-password''
            (ForgotBody (Number (telegramId s)) (selectedMethod s))]\<rparr>"
  by (simp add: handleRequestCode_start_def setters)

lemma request_settle_resolved:
  "handleRequestCode_settle t s (Resolved d) w =
     w\<lparr>codeSent := True,
       success :=
         (if selectedMethod s = Some Email then t ''forgotPassword.codeSentEmail''
          else t ''forgotPassword.codeSent''),
       loading := False\<rparr>"
  by (simp add: handleRequestCode_settle_def setters)

lemma request_settle_rejected:
  "handleRequestCode_settle t s (Rejected e) w =
     w\<lparr>error := js_or (server_error e) (t ''forgotPassword.errors.resetFailed''),
       loading := False\<rparr>"
  by (simp add: handleRequestCode_settle_def setters)

lemma reset_settle_resolved:
  "handleResetPassword_settle t (Resolved d) w =
     w\<lparr>success := t ''forgotPassword.passwordReset'',
       timers := timers w @ [(clock w + 2000, Navigate ''/login'')],
       loading := False\<rparr>"
  by (simp add: handleResetPassword_settle_def setters)

lemma reset_settle_rejected:
  "handleResetPassword_settle t (Rejected e) w =
     w\<lparr>error := js_or (server_error e) (t ''forgotPassword.errors.resetFailed''),
       loading := False\<rparr>"
  by (simp add: handleResetPassword_settle_def setters)

lemma resetState_eq:
  "resetState w =
     w\<lparr>recoveryOptions := None, selectedMethod := None, codeSent := False,
       code := [], error := [], success := []\<rparr>"
  by (simp add: resetState_def setters)

section \<open>Timers\<close>

lemma run_callback_eq: "run_callback cb w = w\<lparr>visited := visited w @ [route cb]\<rparr>"
  by (cases cb) (simp add: run_callback_def navigate_def route_def)

lemma run_callbacks_eq:
  "foldl (\<lambda>v e. run_callback (snd e) v) w es =
     w\<lparr>visited := visited w @ map (\<lambda>e. route (snd e)) es\<rparr>"
proof (induction es arbitrary: w)
  case Nil
  show ?case by simp
next
  case (Cons e es)
  have "foldl (\<lambda>v e. run_callback (snd e) v) w (e # es) =
        foldl (\<lambda>v e. run_callback (snd e) v) (run_callback (snd e) w) es"
    by simp
  also have "\<dots> = (run_callback (snd e) w)
      \<lparr>visited := visited (run_callback (snd e) w) @ map (\<lambda>e. route (snd e)) es\<rparr>"
    by (rule Cons.IH)
  also have "\<dots> = w\<lparr>visited := visited w @ map (\<lambda>e. route (snd e)) (e # es)\<rparr>"
    by (simp add: run_callback_eq)
  finally show ?case .
qed

lemma advance_eq:
  "advance T w =
     w\<lparr>clock := max (clock w) T,
       timers := filter (\<lambda>e. \<not> fst e \<le> T) (timers w),
       visited := visited w @
         map (\<lambda>e. route (snd e)) (sort_key fst (filter (\<lambda>e. fst e \<le> T) (timers w)))\<rparr>"
  by (simp add: advance_def run_callbacks_eq)

text \<open>A timer that is not yet due adds nothing to the routes visited.\<close>

lemma advance_visited_cong:
  "timers w' = timers w @ [(d, cb)] \<Longrightarrow> visited w' = visited w \<Longrightarrow> T < d \<Longrightarrow>
   visited (advance T w') = visited (advance T w)"
  by (simp add: advance_eq)

text \<open>A timer that is due has run.\<close>

lemma advance_visited_due:
  "timers w' = timers w @ [(d, cb)] \<Longrightarrow> d \<le> T \<Longrightarrow>
   route cb \<in> set (visited (advance T w'))"
proof -
  assume a: "timers w' = timers w @ [(d, cb)]" and b: "d \<le> T"
  have "(d, cb) \<in> set (sort_key fst (filter (\<lambda>e. fst e \<le> T) (timers w')))"
    using a b by simp
  then have "route (snd (d, cb)) \<in>
      (\<lambda>e. route (snd e)) ` set (sort_key fst (filter (\<lambda>e. fst e \<le> T) (timers w')))"
    by (rule imageI)
  then show ?thesis by (simp add: advance_eq)
qed

section \<open>Client-side validation of the reset form\<close>

text \<open>
  C1, as stated: whenever the new password has fewer than 6 characters (its \<open>.length\<close>
  is below 6), \<open>handleResetPassword\<close> returns before any network call and the error
  is the too-short message. The second half fails: the comparison with the confirmation
  comes first, so a short password that differs from its confirmation gets the
  mismatch message. Here the new password is \<open>abc12\<close>, the confirmation \<open>abc123\<close>,
  and the translation function gives each key back as its message.
\<close>

theorem short_password_mismatch_counterexample:
  "length (newPassword
      (initial\<lparr>newPassword := lit ''abc12'', confirmPassword := lit ''abc123''\<rparr>)) < 6 \<and>
   error (handleResetPassword lit (Resolved ())
      (initial\<lparr>newPassword := lit ''abc12'', confirmPassword := lit ''abc123''\<rparr>)) =
     lit ''forgotPassword.errors.mismatch'' \<and>
   error (handleResetPassword lit (Resolved ())
      (initial\<lparr>newPassword := lit ''abc12'', confirmPassword := lit ''abc123''\<rparr>)) \<noteq>
     lit ''forgotPassword.errors.tooShort''"
  by (simp add: handleResetPassword_def handleResetPassword_start_def setters initial_def
        lit_def)

text \<open>
  C1, amended: whenever the new password has fewer than 6 characters,
  \<open>handleResetPassword\<close> returns before its \<open>await\<close>, no request is issued and no
  timer is set; the error is the too-short message when the new password equals the
  confirmation, and the mismatch message otherwise. Nothing but the error and the
  (cleared) success message changes.
\<close>

theorem short_password_blocked:
  "length (newPassword s) < 6 \<Longrightarrow>
     snd (handleResetPassword_start t s) = False \<and>
     handleResetPassword t out s =
       s\<lparr>error :=
           (if newPassword s = confirmPassword s then t ''forgotPassword.errors.tooShort''
            else t ''forgotPassword.errors.mismatch''),
         success := []\<rparr> \<and>
     posted (handleResetPassword t out s) = posted s \<and>
     timers (handleResetPassword t out s) = timers s \<and>
     error (handleResetPassword t out s) =
       (if newPassword s = confirmPassword s then t ''forgotPassword.errors.tooShort''
        else t ''forgotPassword.errors.mismatch'')"
  by (cases "newPassword s = confirmPassword s")
     (simp_all add: handleResetPassword_def start_mismatch start_short)

theorem short_password_blocked_witness:
  "length (newPassword
      (initial\<lparr>newPassword := lit ''abc12'', confirmPassword := lit ''abc12''\<rparr>)) < 6 \<and>
   error (handleResetPassword lit (Resolved ())
      (initial\<lparr>newPassword := lit ''abc12'', confirmPassword := lit ''abc12''\<rparr>)) =
     lit ''forgotPassword.errors.tooShort'' \<and>
   posted (handleResetPassword lit (Resolved ())
      (initial\<lparr>newPassword := lit ''abc12'', confirmPassword := lit ''abc12''\<rparr>)) = []"
  using short_password_blocked
    [where s = "initial\<lparr>newPassword := lit ''abc12'', confirmPassword := lit ''abc12''\<rparr>"
       and t = lit and out = "Resolved ()"]
  by (simp add: initial_def lit_def)

text \<open>
  C2: whenever the new password differs from the confirmation, \<open>handleResetPassword\<close>
  sets the error to the mismatch message and returns before its \<open>await\<close>: no request
  goes to either reset endpoint (the list of issued requests is unchanged).
\<close>

theorem mismatch_blocked:
  "newPassword s \<noteq> confirmPassword s \<Longrightarrow>
     handleResetPassword_start t s =
       (s\<lparr>error := t ''forgotPassword.errors.mismatch'', success := []\<rparr>, False) \<and>
     handleResetPassword t out s =
       s\<lparr>error := t ''forgotPassword.errors.mismatch'', success := []\<rparr> \<and>
     error (handleResetPassword t out s) = t ''forgotPassword.errors.mismatch'' \<and>
     posted (handleResetPassword t out s) = posted s"
  by (simp add: handleResetPassword_def start_mismatch)

theorem mismatch_blocked_witness:
  "newPassword
      (initial\<lparr>newPassword := lit ''secret1'', confirmPassword := lit ''secret2''\<rparr>) \<noteq>
   confirmPassword
      (initial\<lparr>newPassword := lit ''secret1'', confirmPassword := lit ''secret2''\<rparr>) \<and>
   error (handleResetPassword lit (Resolved ())
      (initial\<lparr>newPassword := lit ''secret1'', confirmPassword := lit ''secret2''\<rparr>)) =
     lit ''forgotPassword.errors.mismatch'' \<and>
   posted (handleResetPassword lit (Resolved ())
      (initial\<lparr>newPassword := lit ''secret1'', confirmPassword := lit ''secret2''\<rparr>)) = []"
  using mismatch_blocked
    [where s = "initial\<lparr>newPassword := lit ''secret1'', confirmPassword := lit ''secret2''\<rparr>"
       and t = lit and out = "Resolved ()"]
  by (simp add: initial_def lit_def)

section \<open>The options lookup\<close>

text \<open>
  C3: when the options lookup resolves with exactly one of the \<open>telegram\<close> and
  \<open>email\<close> flags true, \<open>handleCheckOptions\<close> stores the options and sets
  \<open>selectedMethod\<close> to that channel, so what is rendered next is not the channel
  selection: it is the send-code step (or the final form, should \<open>codeSent\<close> already
  be true). This holds for the state the response arrives in, whatever it is, and so
  for the run from submission to response.
\<close>

theorem single_channel_auto_selected:
  "telegram d \<noteq> email d \<Longrightarrow>
     recoveryOptions (handleCheckOptions_settle t (Resolved d) w) = Some d \<and>
     selectedMethod (handleCheckOptions_settle t (Resolved d) w) =
       Some (if telegram d then Telegram else Email) \<and>
     (\<forall>bs. render (handleCheckOptions_settle t (Resolved d) w) \<noteq> ChooseMethod bs) \<and>
     render (handleCheckOptions_settle t (Resolved d) w) =
       (if codeSent w then ResetForm (reset_inputs w)
        else SendCode (Some (if telegram d then Telegram else Email))) \<and>
     recoveryOptions (handleCheckOptions t (Resolved d) s) = Some d \<and>
     selectedMethod (handleCheckOptions t (Resolved d) s) =
       Some (if telegram d then Telegram else Email) \<and>
     (\<forall>bs. render (handleCheckOptions t (Resolved d) s) \<noteq> ChooseMethod bs) \<and>
     render (handleCheckOptions t (Resolved d) s) =
       (if codeSent s then ResetForm (reset_inputs s)
        else SendCode (Some (if telegram d then Telegram else Email)))"
  by (auto simp add: handleCheckOptions_def check_start check_settle_resolved render_def
        reset_inputs_def)

theorem single_channel_auto_selected_witness:
  "telegram \<lparr>telegram = False, email = True, emailMasked = Some (lit ''a***@b.com'')\<rparr> \<noteq>
   email \<lparr>telegram = False, email = True, emailMasked = Some (lit ''a***@b.com'')\<rparr> \<and>
   selectedMethod (handleCheckOptions lit
      (Resolved \<lparr>telegram = False, email = True, emailMasked = Some (lit ''a***@b.com'')\<rparr>)
      initial) = Some Email \<and>
   render (handleCheckOptions lit
      (Resolved \<lparr>telegram = False, email = True, emailMasked = Some (lit ''a***@b.com'')\<rparr>)
      initial) = SendCode (Some Email)"
  using single_channel_auto_selected
    [where d = "\<lparr>telegram = False, email = True, emailMasked = Some (lit ''a***@b.com'')\<rparr>"
       and t = lit and s = initial and w = initial]
  by (simp add: initial_def)

text \<open>
  Submitting the identify form issues exactly one request, the options lookup with the
  identifier as typed, whether the call then resolves or is rejected.
\<close>

theorem identify_issues_one_lookup:
  "posted (handleCheckOptions_start s) =
     posted s @ [Post ''/auth/recovery-options'' (OptionsBody (Number (telegramId s)))] \<and>
   posted (handleCheckOptions_settle t out w) = posted w \<and>
   posted (handleCheckOptions t out s) =
     posted s @ [Post ''/auth/recovery-options'' (OptionsBody (Number (telegramId s)))]"
  by (cases out)
     (simp_all add: handleCheckOptions_def check_start check_settle_resolved
        check_settle_rejected)

text \<open>
  The example of the specification: identifier \<open>12345\<close>, both channels available,
  masked address \<open>a***@b.com\<close>. The channel selection shows two buttons, the second
  carrying the masked address.
\<close>

theorem two_channels_example:
  "render (handleCheckOptions lit (Resolved both_channels)
     (setTelegramId (lit ''12345'') initial)) =
     ChooseMethod [TelegramButton, EmailButton (lit ''a***@b.com'')]"
  by (simp add: handleCheckOptions_def check_start check_settle_resolved both_channels_def
        render_def method_buttons_def js_or_def truthy_def setTelegramId_def initial_def
        lit_def)

section \<open>The old-password path\<close>

lemma clickUseOldPassword_eq: "clickUseOldPassword w = w\<lparr>useOldPassword := True\<rparr>"
  by (simp add: clickUseOldPassword_def setters)

text \<open>
  The old-password path where it is entered from the identify form with no lookup
  pending. The click issues no request and sets no timer. While no recovery options
  are stored, an active old-password path renders the final form, with the identifier
  and old-password inputs in place of the code input. A submission that passes
  validation with the path active issues exactly one request, to
  \<open>/auth/reset-password-with-old\<close>, carrying the identifier, the old and the new
  password.
\<close>

theorem old_password_path:
  "posted (clickUseOldPassword w) = posted w \<and>
   timers (clickUseOldPassword w) = timers w \<and>
   useOldPassword (clickUseOldPassword w) = True \<and>
   (recoveryOptions w = None \<longrightarrow>
      render (clickUseOldPassword w) =
        ResetForm [''telegramId'', ''oldPassword'', ''newPassword'', ''confirmPassword'']) \<and>
   (useOldPassword w \<and> recoveryOptions w = None \<longrightarrow>
      render w =
        ResetForm [''telegramId'', ''oldPassword'', ''newPassword'', ''confirmPassword'']) \<and>
   (useOldPassword s \<and> newPassword s = confirmPassword s \<and> 6 \<le> length (newPassword s) \<longrightarrow>
      posted (handleResetPassword t out s) =
        posted s @
        [Post ''/auth/reset-password-with-old''
           (ResetOldBody (Number (telegramId s)) (oldPassword s) (newPassword s))])"
proof -
  have click: "posted (clickUseOldPassword w) = posted w"
    "timers (clickUseOldPassword w) = timers w"
    "useOldPassword (clickUseOldPassword w) = True"
    by (simp_all add: clickUseOldPassword_eq)
  have form: "render v =
      ResetForm [''telegramId'', ''oldPassword'', ''newPassword'', ''confirmPassword'']"
    if "useOldPassword v" and "recoveryOptions v = None" for v
    using that by (simp add: render_def reset_inputs_def)
  have shown: "render (clickUseOldPassword w) =
      ResetForm [''telegramId'', ''oldPassword'', ''newPassword'', ''confirmPassword'']"
    if "recoveryOptions w = None"
    using that by (intro form) (simp_all add: clickUseOldPassword_eq)
  have submit: "posted (handleResetPassword t out s) =
      posted s @
      [Post ''/auth/reset-password-with-old''
         (ResetOldBody (Number (telegramId s)) (oldPassword s) (newPassword s))]"
    if "useOldPassword s" and v: "newPassword s = confirmPassword s"
      "6 \<le> length (newPassword s)"
    using that(1)
    by (cases out)
       (simp_all add: handleResetPassword_def start_valid [OF v] reset_settle_resolved
          reset_settle_rejected)
  show ?thesis using click form [of w] shown submit by blast
qed

theorem old_password_path_witness:
  "render (clickUseOldPassword initial) =
     ResetForm [''telegramId'', ''oldPassword'', ''newPassword'', ''confirmPassword''] \<and>
   posted (handleResetPassword lit (Resolved ())
     (initial\<lparr>useOldPassword := True, telegramId := lit ''12345'',
        oldPassword := lit ''hunter2'', newPassword := lit ''secret1'',
        confirmPassword := lit ''secret1''\<rparr>)) =
     [Post ''/auth/reset-password-with-old''
        (ResetOldBody (Number (lit ''12345'')) (lit ''hunter2'') (lit ''secret1''))]"
proof -
  let ?s = "initial\<lparr>useOldPassword := True, telegramId := lit ''12345'',
        oldPassword := lit ''hunter2'', newPassword := lit ''secret1'',
        confirmPassword := lit ''secret1''\<rparr>"
  have a: "recoveryOptions initial = None" by (simp add: initial_def)
  have b: "useOldPassword ?s \<and> newPassword ?s = confirmPassword ?s \<and>
      6 \<le> length (newPassword ?s)"
    by (simp add: lit_def)
  have c: "posted ?s = []" "telegramId ?s = lit ''12345''" "oldPassword ?s = lit ''hunter2''"
    "newPassword ?s = lit ''secret1''"
    by (simp_all add: initial_def)
  note r = old_password_path [where w = initial and s = ?s and t = lit and out = "Resolved ()"]
  have d: "render (clickUseOldPassword initial) =
      ResetForm [''telegramId'', ''oldPassword'', ''newPassword'', ''confirmPassword'']"
    by (rule r [THEN conjunct2, THEN conjunct2, THEN conjunct2, THEN conjunct1, THEN mp,
          OF a])
  have e: "posted (handleResetPassword lit (Resolved ()) ?s) =
      posted ?s @
      [Post ''/auth/reset-password-with-old''
         (ResetOldBody (Number (telegramId ?s)) (oldPassword ?s) (newPassword ?s))]"
    by (rule r [THEN conjunct2, THEN conjunct2, THEN conjunct2, THEN conjunct2,
          THEN conjunct2, THEN mp, OF b])
  show ?thesis using d e by (simp only: c append_Nil simp_thms)
qed

text \<open>
  C4: whenever \<open>useOldPassword\<close> is true the wizard is to render the final password
  form directly, without the options lookup or the code request. The old-password
  button of the identify form stays enabled while the options lookup is in flight, and
  the rendering tests \<open>recoveryOptions && !selectedMethod\<close> before it reaches the
  final form. So in the run \<open>old_path_then_options\<close> the final form is shown after
  the click, and replaced by the channel selection when the lookup resolves, with
  \<open>useOldPassword\<close> still true; picking Telegram there and asking for a code posts to
  \<open>/auth/forgot-password\<close>.
\<close>

theorem old_password_race:
  "render lookup_in_flight = IdentifyForm \<and>
   posted lookup_in_flight =
     [Post ''/auth/recovery-options'' (OptionsBody (Number (lit ''12345'')))] \<and>
   render (clickUseOldPassword lookup_in_flight) =
     ResetForm [''telegramId'', ''oldPassword'', ''newPassword'', ''confirmPassword''] \<and>
   useOldPassword old_path_then_options = True \<and>
   render old_path_then_options =
     ChooseMethod [TelegramButton, EmailButton (lit ''a***@b.com'')] \<and>
   render (clickMethod Telegram old_path_then_options) = SendCode (Some Telegram) \<and>
   useOldPassword (handleRequestCode_start (clickMethod Telegram old_path_then_options)) =
     True \<and>
   posted (handleRequestCode_start (clickMethod Telegram old_path_then_options)) =
     [Post ''/auth/recovery-options'' (OptionsBody (Number (lit ''12345''))),
      Post ''/auth/forgot-password'' (ForgotBody (Number (lit ''12345'')) (Some Telegram))]"
  by (simp add: old_path_then_options_def lookup_in_flight_def both_channels_def
        clickUseOldPassword_eq clickMethod_def check_start check_settle_resolved
        request_start render_def reset_inputs_def method_buttons_def js_or_def truthy_def
        setTelegramId_def setSelectedMethod_def initial_def lit_def)

section \<open>A successful reset\<close>

text \<open>
  C5: when the reset call resolves, \<open>handleResetPassword\<close> sets the success message
  and sets one timer, due 2000 ms after the moment the call resolved, whose callback
  navigates to \<open>/login\<close>; the handler itself does not navigate. Letting the clock
  reach any time \<open>T\<close> before that moment plus 2000 ms, the routes visited are those
  visited without this submission; once the clock has reached it, \<open>/login\<close> has been
  visited, and the success message is still the one set. A submission that passes
  validation and whose call resolves is such a run.
\<close>

theorem reset_success_navigates_after_delay:
  "success (handleResetPassword_settle t (Resolved d) w) =
     t ''forgotPassword.passwordReset'' \<and>
   timers (handleResetPassword_settle t (Resolved d) w) =
     timers w @ [(clock w + 2000, Navigate ''/login'')] \<and>
   visited (handleResetPassword_settle t (Resolved d) w) = visited w \<and>
   (T < clock w + 2000 \<longrightarrow>
      visited (advance T (handleResetPassword_settle t (Resolved d) w)) =
      visited (advance T w)) \<and>
   (clock w + 2000 \<le> T \<longrightarrow>
      ''/login'' \<in> set (visited (advance T (handleResetPassword_settle t (Resolved d) w))) \<and>
      success (advance T (handleResetPassword_settle t (Resolved d) w)) =
        t ''forgotPassword.passwordReset'') \<and>
   (newPassword s = confirmPassword s \<and> 6 \<le> length (newPassword s) \<longrightarrow>
      handleResetPassword t (Resolved d) s =
        handleResetPassword_settle t (Resolved d) (fst (handleResetPassword_start t s)) \<and>
      success (handleResetPassword t (Resolved d) s) = t ''forgotPassword.passwordReset'' \<and>
      timers (handleResetPassword t (Resolved d) s) =
        timers s @ [(clock s + 2000, Navigate ''/login'')] \<and>
      visited (handleResetPassword t (Resolved d) s) = visited s \<and>
      (T < clock s + 2000 \<longrightarrow>
         visited (advance T (handleResetPassword t (Resolved d) s)) =
         visited (advance T s)) \<and>
      (clock s + 2000 \<le> T \<longrightarrow>
         ''/login'' \<in> set (visited (advance T (handleResetPassword t (Resolved d) s)))))"
proof -
  have settle: "success (handleResetPassword_settle t (Resolved d) v) =
        t ''forgotPassword.passwordReset''"
      "timers (handleResetPassword_settle t (Resolved d) v) =
        timers v @ [(clock v + 2000, Navigate ''/login'')]"
      "visited (handleResetPassword_settle t (Resolved d) v) = visited v" for v
    by (simp_all add: reset_settle_resolved)
  have before: "visited (advance T (handleResetPassword_settle t (Resolved d) v)) =
      visited (advance T v)" if "T < clock v + 2000" for v
    using settle(2) settle(3) that by (rule advance_visited_cong)
  have after: "''/login'' \<in> set (visited (advance T (handleResetPassword_settle t (Resolved d) v)))"
    if "clock v + 2000 \<le> T" for v
    using advance_visited_due [OF settle(2) that] by (simp add: route_def)
  have kept: "success (advance T (handleResetPassword_settle t (Resolved d) v)) =
      t ''forgotPassword.passwordReset''" for v
    by (simp add: advance_eq settle(1))
  have composite:
    "handleResetPassword t (Resolved d) s =
       handleResetPassword_settle t (Resolved d) (fst (handleResetPassword_start t s)) \<and>
     success (handleResetPassword t (Resolved d) s) = t ''forgotPassword.passwordReset'' \<and>
     timers (handleResetPassword t (Resolved d) s) =
       timers s @ [(clock s + 2000, Navigate ''/login'')] \<and>
     visited (handleResetPassword t (Resolved d) s) = visited s \<and>
     (T < clock s + 2000 \<longrightarrow>
        visited (advance T (handleResetPassword t (Resolved d) s)) =
        visited (advance T s)) \<and>
     (clock s + 2000 \<le> T \<longrightarrow>
        ''/login'' \<in> set (visited (advance T (handleResetPassword t (Resolved d) s))))"
    if valid: "newPassword s = confirmPassword s" "6 \<le> length (newPassword s)"
  proof -
    have run: "handleResetPassword t (Resolved d) s =
        handleResetPassword_settle t (Resolved d) (fst (handleResetPassword_start t s))"
      by (simp add: handleResetPassword_def start_valid [OF valid])
    have same: "clock (fst (handleResetPassword_start t s)) = clock s"
      "timers (fst (handleResetPassword_start t s)) = timers s"
      "visited (fst (handleResetPassword_start t s)) = visited s"
      by (simp_all add: start_valid [OF valid])
    have adv: "visited (advance T (fst (handleResetPassword_start t s))) =
        visited (advance T s)"
      by (simp add: advance_eq same)
    have r1: "success (handleResetPassword t (Resolved d) s) =
        t ''forgotPassword.passwordReset''"
      "timers (handleResetPassword t (Resolved d) s) =
         timers s @ [(clock s + 2000, Navigate ''/login'')]"
      "visited (handleResetPassword t (Resolved d) s) = visited s"
      by (simp_all only: run settle same)
    have r2: "visited (advance T (handleResetPassword t (Resolved d) s)) =
        visited (advance T s)"
      if "T < clock s + 2000"
      using before [of "fst (handleResetPassword_start t s)"] that
      by (simp only: run same adv)
    have r3: "''/login'' \<in> set (visited (advance T (handleResetPassword t (Resolved d) s)))"
      if "clock s + 2000 \<le> T"
      using after [of "fst (handleResetPassword_start t s)"] that
      by (simp only: run same)
    show ?thesis using run r1 r2 r3 by blast
  qed
  show ?thesis
    using settle [of w] before [of w] after [of w] kept [of w] composite by blast
qed

theorem reset_success_navigates_after_delay_witness:
  "newPassword (initial\<lparr>newPassword := lit ''secret1'', confirmPassword := lit ''secret1''\<rparr>) =
   confirmPassword (initial\<lparr>newPassword := lit ''secret1'', confirmPassword := lit ''secret1''\<rparr>) \<and>
   6 \<le> length (newPassword
     (initial\<lparr>newPassword := lit ''secret1'', confirmPassword := lit ''secret1''\<rparr>)) \<and>
   success (handleResetPassword lit (Resolved ())
     (initial\<lparr>newPassword := lit ''secret1'', confirmPassword := lit ''secret1''\<rparr>)) =
     lit ''forgotPassword.passwordReset'' \<and>
   timers (handleResetPassword lit (Resolved ())
     (initial\<lparr>newPassword := lit ''secret1'', confirmPassword := lit ''secret1''\<rparr>)) =
     [(2000, Navigate ''/login'')] \<and>
   visited (advance 1999 (handleResetPassword lit (Resolved ())
     (initial\<lparr>newPassword := lit ''secret1'', confirmPassword := lit ''secret1''\<rparr>))) = [] \<and>
   ''/login'' \<in> set (visited (advance 2000 (handleResetPassword_settle lit (Resolved ())
     initial)))"
proof -
  let ?s = "initial\<lparr>newPassword := lit ''secret1'', confirmPassword := lit ''secret1''\<rparr>"
  have a: "newPassword ?s = confirmPassword ?s" by simp
  have b: "6 \<le> length (newPassword ?s)" by (simp add: lit_def)
  have c: "visited (advance 1999 ?s) = []" by (simp add: advance_def initial_def)
  have d: "timers ?s = []" "clock ?s = 0" "clock initial = 0" by (simp_all add: initial_def)
  note early = reset_success_navigates_after_delay
    [where s = ?s and t = lit and d = "()" and w = initial and T = 1999]
  note late = reset_success_navigates_after_delay
    [where s = ?s and t = lit and d = "()" and w = initial and T = 2000]
  from early a b have "success (handleResetPassword lit (Resolved ()) ?s) =
      lit ''forgotPassword.passwordReset''"
    by blast
  moreover from early a b have "timers (handleResetPassword lit (Resolved ()) ?s) =
      timers ?s @ [(clock ?s + 2000, Navigate ''/login'')]"
    by blast
  moreover from early a b have "1999 < clock ?s + 2000 \<longrightarrow>
      visited (advance 1999 (handleResetPassword lit (Resolved ()) ?s)) =
      visited (advance 1999 ?s)"
    by blast
  moreover from late have "clock initial + 2000 \<le> 2000 \<longrightarrow>
      ''/login'' \<in> set (visited (advance 2000 (handleResetPassword_settle lit (Resolved ())
        initial)))"
    by blast
  ultimately show ?thesis using a b c d by simp
qed

section \<open>Rejected calls\<close>

text \<open>
  C6: when the awaited call of \<open>handleCheckOptions\<close>, \<open>handleRequestCode\<close> or
  \<open>handleResetPassword\<close> is rejected, the handler changes nothing but the error
  message, the success message and the busy flags (and the request it issued is on
  record): \<open>recoveryOptions\<close>, \<open>selectedMethod\<close>, \<open>codeSent\<close>, \<open>useOldPassword\<close>
  and the five input fields are as before, so the same step is rendered. This holds for
  the whole run of the handler, and for its \<open>catch\<close> and \<open>finally\<close> part in whatever
  state the rejection arrives.
\<close>

theorem rejected_call_keeps_step:
  "only_status_changed s (handleCheckOptions t (Rejected e) s) \<and>
   only_status_changed s (handleRequestCode t (Rejected e) s) \<and>
   only_status_changed s (handleResetPassword t (Rejected e) s) \<and>
   render (handleCheckOptions t (Rejected e) s) = render s \<and>
   render (handleRequestCode t (Rejected e) s) = render s \<and>
   render (handleResetPassword t (Rejected e) s) = render s \<and>
   only_status_changed w (handleCheckOptions_settle t (Rejected e) w) \<and>
   only_status_changed w (handleRequestCode_settle t s (Rejected e) w) \<and>
   only_status_changed w (handleResetPassword_settle t (Rejected e) w) \<and>
   render (handleCheckOptions_settle t (Rejected e) w) = render w \<and>
   render (handleRequestCode_settle t s (Rejected e) w) = render w \<and>
   render (handleResetPassword_settle t (Rejected e) w) = render w"
proof -
  have a: "only_status_changed s (handleCheckOptions t (Rejected e) s)"
    "render (handleCheckOptions t (Rejected e) s) = render s"
    by (simp_all add: handleCheckOptions_def check_start check_settle_rejected
          only_status_changed_def render_def reset_inputs_def)
  have b: "only_status_changed s (handleRequestCode t (Rejected e) s)"
    "render (handleRequestCode t (Rejected e) s) = render s"
    by (simp_all add: handleRequestCode_def request_start request_settle_rejected
          only_status_changed_def render_def reset_inputs_def)
  have c: "only_status_changed s (handleResetPassword t (Rejected e) s) \<and>
    render (handleResetPassword t (Rejected e) s) = render s"
  proof (cases "newPassword s = confirmPassword s")
    case False
    then show ?thesis
      by (simp add: handleResetPassword_def start_mismatch only_status_changed_def
            render_def reset_inputs_def)
  next
    case True
    show ?thesis
    proof (cases "length (newPassword s) < 6")
      case True
      with \<open>newPassword s = confirmPassword s\<close> show ?thesis
        by (simp add: handleResetPassword_def start_short only_status_changed_def
              render_def reset_inputs_def)
    next
      case False
      then have "6 \<le> length (newPassword s)" by simp
      with \<open>newPassword s = confirmPassword s\<close> show ?thesis
        by (simp add: handleResetPassword_def start_valid reset_settle_rejected
              only_status_changed_def render_def reset_inputs_def)
    qed
  qed
  have d: "only_status_changed w (handleCheckOptions_settle t (Rejected e) w)"
    "only_status_changed w (handleRequestCode_settle t s (Rejected e) w)"
    "only_status_changed w (handleResetPassword_settle t (Rejected e) w)"
    "render (handleCheckOptions_settle t (Rejected e) w) = render w"
    "render (handleRequestCode_settle t s (Rejected e) w) = render w"
    "render (handleResetPassword_settle t (Rejected e) w) = render w"
    by (simp_all add: check_settle_rejected request_settle_rejected reset_settle_rejected
          only_status_changed_def render_def reset_inputs_def)
  show ?thesis using a b c d by blast
qed

theorem rejected_call_keeps_step_witness:
  "only_status_changed
     (initial\<lparr>telegramId := lit ''12345'', newPassword := lit ''secret1'',
        confirmPassword := lit ''secret1'', code := lit ''000000''\<rparr>)
     (handleResetPassword lit (Rejected \<lparr>response = None\<rparr>)
       (initial\<lparr>telegramId := lit ''12345'', newPassword := lit ''secret1'',
          confirmPassword := lit ''secret1'', code := lit ''000000''\<rparr>)) \<and>
   only_status_changed initial
     (handleCheckOptions lit (Rejected \<lparr>response = None\<rparr>) initial)"
  using rejected_call_keeps_step
    [where s = "initial\<lparr>telegramId := lit ''12345'', newPassword := lit ''secret1'',
        confirmPassword := lit ''secret1'', code := lit ''000000''\<rparr>"
       and t = lit and e = "\<lparr>response = None\<rparr>"]
    rejected_call_keeps_step [where s = initial and t = lit and e = "\<lparr>response = None\<rparr>"]
  by blast

text \<open>
  C7: when the awaited call of any of the three handlers is rejected, the error state
  becomes the \<open>error\<close> field of the server's response when
  \<open>error.response?.data?.error\<close> is present and truthy (a non-empty string), and the
  translation of \<open>forgotPassword.errors.resetFailed\<close> otherwise. For
  \<open>handleResetPassword\<close> a call is made only when validation has passed.
\<close>

theorem rejected_call_error_message:
  "error (handleCheckOptions_settle t (Rejected e) w) =
     (case server_error e of
        Some m \<Rightarrow> if m \<noteq> [] then m else t ''forgotPassword.errors.resetFailed''
      | None \<Rightarrow> t ''forgotPassword.errors.resetFailed'') \<and>
   error (handleRequestCode_settle t s (Rejected e) w) =
     (case server_error e of
        Some m \<Rightarrow> if m \<noteq> [] then m else t ''forgotPassword.errors.resetFailed''
      | None \<Rightarrow> t ''forgotPassword.errors.resetFailed'') \<and>
   error (handleResetPassword_settle t (Rejected e) w) =
     (case server_error e of
        Some m \<Rightarrow> if m \<noteq> [] then m else t ''forgotPassword.errors.resetFailed''
      | None \<Rightarrow> t ''forgotPassword.errors.resetFailed'') \<and>
   error (handleCheckOptions t (Rejected e) s) =
     (case server_error e of
        Some m \<Rightarrow> if m \<noteq> [] then m else t ''forgotPassword.errors.resetFailed''
      | None \<Rightarrow> t ''forgotPassword.errors.resetFailed'') \<and>
   error (handleRequestCode t (Rejected e) s) =
     (case server_error e of
        Some m \<Rightarrow> if m \<noteq> [] then m else t ''forgotPassword.errors.resetFailed''
      | None \<Rightarrow> t ''forgotPassword.errors.resetFailed'') \<and>
   (newPassword s = confirmPassword s \<and> 6 \<le> length (newPassword s) \<longrightarrow>
      error (handleResetPassword t (Rejected e) s) =
        (case server_error e of
           Some m \<Rightarrow> if m \<noteq> [] then m else t ''forgotPassword.errors.resetFailed''
         | None \<Rightarrow> t ''forgotPassword.errors.resetFailed''))"
proof -
  let ?m = "case server_error e of
        Some m \<Rightarrow> if m \<noteq> [] then m else t ''forgotPassword.errors.resetFailed''
      | None \<Rightarrow> t ''forgotPassword.errors.resetFailed''"
  have or_eq: "js_or (server_error e) (t ''forgotPassword.errors.resetFailed'') = ?m"
    by (simp add: js_or_def truthy_def split: option.split)
  have settle: "error (handleCheckOptions_settle t (Rejected e) w) = ?m"
    "error (handleRequestCode_settle t s (Rejected e) w) = ?m"
    "error (handleResetPassword_settle t (Rejected e) w) = ?m"
    by (simp_all add: check_settle_rejected request_settle_rejected reset_settle_rejected
          or_eq)
  have run: "error (handleCheckOptions t (Rejected e) s) = ?m"
    "error (handleRequestCode t (Rejected e) s) = ?m"
    by (simp_all add: handleCheckOptions_def handleRequestCode_def check_settle_rejected
          request_settle_rejected or_eq)
  have reset: "error (handleResetPassword t (Rejected e) s) = ?m"
    if "newPassword s = confirmPassword s" and "6 \<le> length (newPassword s)"
    by (simp add: handleResetPassword_def start_valid [OF that] reset_settle_rejected or_eq)
  show ?thesis using settle run reset by blast
qed

theorem rejected_call_error_message_witness:
  "error (handleResetPassword lit
     (Rejected \<lparr>response = Some \<lparr>data = Some \<lparr>error_field = Some (lit ''Invalid code'')\<rparr>\<rparr>\<rparr>)
     (initial\<lparr>newPassword := lit ''secret1'', confirmPassword := lit ''secret1''\<rparr>)) =
     lit ''Invalid code'' \<and>
   error (handleResetPassword lit
     (Rejected \<lparr>response = Some \<lparr>data = Some \<lparr>error_field = Some []\<rparr>\<rparr>\<rparr>)
     (initial\<lparr>newPassword := lit ''secret1'', confirmPassword := lit ''secret1''\<rparr>)) =
     lit ''forgotPassword.errors.resetFailed'' \<and>
   error (handleResetPassword lit (Rejected \<lparr>response = None\<rparr>)
     (initial\<lparr>newPassword := lit ''secret1'', confirmPassword := lit ''secret1''\<rparr>)) =
     lit ''forgotPassword.errors.resetFailed''"
proof -
  let ?s = "initial\<lparr>newPassword := lit ''secret1'', confirmPassword := lit ''secret1''\<rparr>"
  have v: "newPassword ?s = confirmPassword ?s \<and> 6 \<le> length (newPassword ?s)"
    by (simp add: lit_def)
  let ?e1 = "\<lparr>response = Some \<lparr>data = Some \<lparr>error_field = Some (lit ''Invalid code'')\<rparr>\<rparr>\<rparr>"
  let ?e2 = "\<lparr>response = Some \<lparr>data = Some \<lparr>error_field = Some ([] :: jsstring)\<rparr>\<rparr>\<rparr>"
  let ?e3 = "\<lparr>response = None\<rparr>"
  have s1: "server_error ?e1 = Some (lit ''Invalid code'')" "lit ''Invalid code'' \<noteq> []"
    and s2: "server_error ?e2 = Some []"
    and s3: "server_error ?e3 = None"
    by (simp_all add: server_error_def lit_def)
  have "error (handleResetPassword lit (Rejected ?e1) ?s) =
      (case server_error ?e1 of
         Some m \<Rightarrow> if m \<noteq> [] then m else lit ''forgotPassword.errors.resetFailed''
       | None \<Rightarrow> lit ''forgotPassword.errors.resetFailed'')"
    using rejected_call_error_message [where s = ?s and t = lit and e = ?e1] v by blast
  then have r1: "error (handleResetPassword lit (Rejected ?e1) ?s) = lit ''Invalid code''"
    by (simp only: s1 option.case if_True simp_thms)
  have "error (handleResetPassword lit (Rejected ?e2) ?s) =
      (case server_error ?e2 of
         Some m \<Rightarrow> if m \<noteq> [] then m else lit ''forgotPassword.errors.resetFailed''
       | None \<Rightarrow> lit ''forgotPassword.errors.resetFailed'')"
    using rejected_call_error_message [where s = ?s and t = lit and e = ?e2] v by blast
  then have r2: "error (handleResetPassword lit (Rejected ?e2) ?s) =
      lit ''forgotPassword.errors.resetFailed''"
    by (simp only: s2 option.case if_False simp_thms)
  have "error (handleResetPassword lit (Rejected ?e3) ?s) =
      (case server_error ?e3 of
         Some m \<Rightarrow> if m \<noteq> [] then m else lit ''forgotPassword.errors.resetFailed''
       | None \<Rightarrow> lit ''forgotPassword.errors.resetFailed'')"
    using rejected_call_error_message [where s = ?s and t = lit and e = ?e3] v by blast
  then have r3: "error (handleResetPassword lit (Rejected ?e3) ?s) =
      lit ''forgotPassword.errors.resetFailed''"
    by (simp only: s3 option.case simp_thms)
  show ?thesis using r1 r2 r3 by blast
qed

section \<open>The request interceptor\<close>

text \<open>
  C8: the request interceptor of the shared HTTP client reads \<open>accessToken\<close> from
  local storage. When a non-empty value is stored there, the request's
  \<open>Authorization\<close> header is \<open>Bearer\<close>, a space, and that value, and every other
  header and every other field of the request is as it was; when nothing or the empty
  string is stored, the request is returned as it was.
\<close>

theorem interceptor_bearer:
  "(localStorage (lit ''accessToken'') = Some tok \<and> tok \<noteq> [] \<longrightarrow>
      headers (request_interceptor localStorage cfg) ''Authorization'' =
        Some (lit ''Bearer '' @ tok) \<and>
      (\<forall>h. h \<noteq> ''Authorization'' \<longrightarrow>
         headers (request_interceptor localStorage cfg) h = headers cfg h) \<and>
      config.more (request_interceptor localStorage cfg) = config.more cfg) \<and>
   (localStorage (lit ''accessToken'') = None \<or>
    localStorage (lit ''accessToken'') = Some [] \<longrightarrow>
      request_interceptor localStorage cfg = cfg)"
  by (auto simp add: request_interceptor_def getItem_def truthy_def)

theorem interceptor_bearer_witness:
  "headers
     (request_interceptor [lit ''accessToken'' \<mapsto> lit ''abc123'']
        \<lparr>headers = [''Accept'' \<mapsto> lit ''application/json'']\<rparr>)
     ''Authorization'' = Some (lit ''Bearer abc123'') \<and>
   headers
     (request_interceptor [lit ''accessToken'' \<mapsto> lit ''abc123'']
        \<lparr>headers = [''Accept'' \<mapsto> lit ''application/json'']\<rparr>)
     ''Accept'' = Some (lit ''application/json'') \<and>
   request_interceptor Map.empty \<lparr>headers = [''Accept'' \<mapsto> lit ''application/json'']\<rparr> =
     \<lparr>headers = [''Accept'' \<mapsto> lit ''application/json'']\<rparr> \<and>
   request_interceptor [lit ''accessToken'' \<mapsto> []]
     \<lparr>headers = [''Accept'' \<mapsto> lit ''application/json'']\<rparr> =
     \<lparr>headers = [''Accept'' \<mapsto> lit ''application/json'']\<rparr>"
proof -
  let ?cfg = "\<lparr>headers = [''Accept'' \<mapsto> lit ''application/json'']\<rparr>"
  let ?st = "[lit ''accessToken'' \<mapsto> lit ''abc123'']"
  have tok: "?st (lit ''accessToken'') = Some (lit ''abc123'') \<and> lit ''abc123'' \<noteq> []"
    by (simp add: lit_def)
  have cat: "lit ''Bearer '' @ lit ''abc123'' = lit ''Bearer abc123''"
    by (simp add: lit_def)
  have other: "''Accept'' \<noteq> ''Authorization''" by simp
  have none: "Map.empty (lit ''accessToken'') = (None :: jsstring option)" by simp
  have empty: "[lit ''accessToken'' \<mapsto> ([] :: jsstring)] (lit ''accessToken'') = Some []"
    by simp
  note hit = interceptor_bearer
    [where localStorage = ?st and tok = "lit ''abc123''" and cfg = ?cfg,
      THEN conjunct1, THEN mp, OF tok]
  note miss1 = interceptor_bearer
    [where localStorage = Map.empty and cfg = ?cfg, THEN conjunct2, THEN mp,
      OF disjI1, OF none]
  note miss2 = interceptor_bearer
    [where localStorage = "[lit ''accessToken'' \<mapsto> []]" and cfg = ?cfg,
      THEN conjunct2, THEN mp, OF disjI2, OF empty]
  have a: "headers (request_interceptor ?st ?cfg) ''Authorization'' =
      Some (lit ''Bearer abc123'')"
    using hit [THEN conjunct1] by (simp only: cat)
  have b: "headers (request_interceptor ?st ?cfg) ''Accept'' = Some (lit ''application/json'')"
    using hit [THEN conjunct2, THEN conjunct1, THEN spec, THEN mp, OF other] by simp
  show ?thesis
    by (intro conjI) (rule a, rule b, rule miss1, rule miss2)
qed

section \<open>The channel selection\<close>

text \<open>
  C9: on the channel-selection screen (options stored, no method selected) the
  Telegram button is always among the buttons, whatever the \<open>telegram\<close> flag of the
  stored options says: the screen does not depend on that flag. An email button is
  among them exactly when the \<open>email\<close> flag is true.
\<close>

theorem telegram_button_unconditional:
  "recoveryOptions w = Some opts \<Longrightarrow> selectedMethod w = None \<Longrightarrow>
     (\<exists>bs. render w = ChooseMethod bs \<and> TelegramButton \<in> set bs \<and>
           (\<exists>h. EmailButton h \<in> set bs) = email opts) \<and>
     render (w\<lparr>recoveryOptions := Some (opts\<lparr>telegram := b\<rparr>)\<rparr>) = render w"
  by (auto simp add: render_def method_buttons_def)

theorem telegram_button_unconditional_witness:
  "recoveryOptions
     (handleCheckOptions lit
        (Resolved \<lparr>telegram = False, email = False, emailMasked = None\<rparr>) initial) =
     Some \<lparr>telegram = False, email = False, emailMasked = None\<rparr> \<and>
   selectedMethod
     (handleCheckOptions lit
        (Resolved \<lparr>telegram = False, email = False, emailMasked = None\<rparr>) initial) = None \<and>
   (\<exists>bs. render
       (handleCheckOptions lit
          (Resolved \<lparr>telegram = False, email = False, emailMasked = None\<rparr>) initial) =
       ChooseMethod bs \<and>
     TelegramButton \<in> set bs \<and> \<not> (\<exists>h. EmailButton h \<in> set bs))"
proof -
  let ?d = "\<lparr>telegram = False, email = False, emailMasked = None\<rparr>"
  let ?w = "handleCheckOptions lit (Resolved ?d) initial"
  have a: "recoveryOptions ?w = Some ?d"
    and b: "selectedMethod ?w = None"
    by (simp_all add: handleCheckOptions_def check_start check_settle_resolved initial_def)
  have "\<exists>bs. render ?w = ChooseMethod bs \<and> TelegramButton \<in> set bs \<and>
      (\<exists>h. EmailButton h \<in> set bs) = email ?d"
    using telegram_button_unconditional [OF a b] by blast
  then have "\<exists>bs. render ?w = ChooseMethod bs \<and> TelegramButton \<in> set bs \<and>
      \<not> (\<exists>h. EmailButton h \<in> set bs)"
    by simp
  then show ?thesis using a b by blast
qed

section \<open>Cancel\<close>

text \<open>
  C10: \<open>resetState\<close> clears \<open>recoveryOptions\<close>, \<open>selectedMethod\<close>, \<open>codeSent\<close>,
  \<open>code\<close>, \<open>error\<close> and \<open>success\<close> and nothing else: \<open>telegramId\<close>,
  \<open>newPassword\<close>, \<open>confirmPassword\<close>, \<open>oldPassword\<close> (and \<open>useOldPassword\<close>) keep
  their values. What is rendered afterwards is the identify form, with the identifier
  still in it, unless the old-password path is active.
\<close>

theorem resetState_frame:
  "resetState w =
     w\<lparr>recoveryOptions := None, selectedMethod := None, codeSent := False,
       code := [], error := [], success := []\<rparr> \<and>
   recoveryOptions (resetState w) = None \<and> selectedMethod (resetState w) = None \<and>
   codeSent (resetState w) = False \<and> code (resetState w) = [] \<and>
   error (resetState w) = [] \<and> success (resetState w) = [] \<and>
   telegramId (resetState w) = telegramId w \<and>
   newPassword (resetState w) = newPassword w \<and>
   confirmPassword (resetState w) = confirmPassword w \<and>
   oldPassword (resetState w) = oldPassword w \<and>
   useOldPassword (resetState w) = useOldPassword w \<and>
   render (resetState w) =
     (if useOldPassword w then ResetForm (reset_inputs w) else IdentifyForm)"
  by (simp add: resetState_eq render_def reset_inputs_def)

theorem resetState_frame_witness:
  "telegramId (resetState
     (initial\<lparr>telegramId := lit ''12345'', newPassword := lit ''secret1'',
        confirmPassword := lit ''secret1'', oldPassword := lit ''hunter2'',
        code := lit ''000000'', recoveryOptions := Some both_channels\<rparr>)) = lit ''12345'' \<and>
   newPassword (resetState
     (initial\<lparr>telegramId := lit ''12345'', newPassword := lit ''secret1'',
        confirmPassword := lit ''secret1'', oldPassword := lit ''hunter2'',
        code := lit ''000000'', recoveryOptions := Some both_channels\<rparr>)) = lit ''secret1'' \<and>
   code (resetState
     (initial\<lparr>telegramId := lit ''12345'', newPassword := lit ''secret1'',
        confirmPassword := lit ''secret1'', oldPassword := lit ''hunter2'',
        code := lit ''000000'', recoveryOptions := Some both_channels\<rparr>)) = [] \<and>
   render (resetState
     (initial\<lparr>telegramId := lit ''12345'', newPassword := lit ''secret1'',
        confirmPassword := lit ''secret1'', oldPassword := lit ''hunter2'',
        code := lit ''000000'', recoveryOptions := Some both_channels\<rparr>)) = IdentifyForm"
proof -
  let ?w = "initial\<lparr>telegramId := lit ''12345'', newPassword := lit ''secret1'',
        confirmPassword := lit ''secret1'', oldPassword := lit ''hunter2'',
        code := lit ''000000'', recoveryOptions := Some both_channels\<rparr>"
  note r = resetState_frame [where w = ?w]
  from r have a: "telegramId (resetState ?w) = telegramId ?w" by blast
  from r have b: "newPassword (resetState ?w) = newPassword ?w" by blast
  from r have c: "code (resetState ?w) = []" by blast
  from r have d: "render (resetState ?w) =
      (if useOldPassword ?w then ResetForm (reset_inputs ?w) else IdentifyForm)"
    by blast
  have e: "useOldPassword ?w = False" by (simp add: initial_def)
  show ?thesis using a b c d e by simp
qed

end
